theory Spec2Isabelle
  imports Main
begin

section \<open>Text primitives of the Python runtime\<close>

text \<open>
  A Python \<open>str\<close> is modelled as a \<open>string\<close>; a \<open>char\<close> stands for the code point
  of the same number. Everything the program reads is decoded from ASCII first, so code
  points above 127 never reach the line handlers.
\<close>

definition newline :: char where
  "newline = CHR 0x0A"

definition is_digit :: "char \<Rightarrow> bool" where
  \<comment> \<open>the character class \<open>[0-9]\<close>\<close>
  "is_digit c = (c \<in> set ''0123456789'')"

definition is_name_char :: "char \<Rightarrow> bool" where
  \<comment> \<open>the character class \<open>[a-zA-Z_-]\<close>\<close>
  "is_name_char c =
     (c \<in> set ''abcdefghijklmnopqrstuvwxyzABCDEFGHIJKLMNOPQRSTUVWXYZ_-'')"

definition is_upper :: "char \<Rightarrow> bool" where
  \<comment> \<open>the character class \<open>[A-Z]\<close>\<close>
  "is_upper c = (c \<in> set ''ABCDEFGHIJKLMNOPQRSTUVWXYZ'')"

definition is_space :: "char \<Rightarrow> bool" where
  \<comment> \<open>\<open>str.isspace\<close> and the class \<open>\s\<close> of a \<open>str\<close> pattern, below code point 256:
      TAB, LF, VT, FF, CR, FS, GS, RS, US, SPACE, NEL and NO-BREAK SPACE\<close>
  "is_space c =
     (c \<in> set [CHR 0x09, CHR 0x0A, CHR 0x0B, CHR 0x0C, CHR 0x0D,
                CHR 0x1C, CHR 0x1D, CHR 0x1E, CHR 0x1F, CHR 0x20, CHR 0x85, CHR 0xA0])"

definition is_ascii :: "string \<Rightarrow> bool" where
  "is_ascii s = list_all (\<lambda>c. (of_char c :: nat) < 128) s"

definition py_strip :: "string \<Rightarrow> string" where
  \<comment> \<open>\<open>str.strip()\<close>\<close>
  "py_strip s = rev (dropWhile is_space (rev (dropWhile is_space s)))"

definition digit_val :: "char \<Rightarrow> int" where
  "digit_val c = int (of_char c) - 48"

definition dec_value :: "string \<Rightarrow> int" where
  "dec_value ds = foldl (\<lambda>a c. 10 * a + digit_val c) 0 ds"

definition c_isspace :: "char \<Rightarrow> bool" where
  \<comment> \<open>the whitespace that the number parser behind \<open>int\<close> skips: TAB, LF, VT, FF, CR
      and SPACE; unlike \<open>str.isspace\<close> it leaves FS, GS, RS and US alone\<close>
  "c_isspace c = (c \<in> set [CHR 0x09, CHR 0x0A, CHR 0x0B, CHR 0x0C, CHR 0x0D, CHR 0x20])"

definition c_strip :: "string \<Rightarrow> string" where
  "c_strip s = rev (dropWhile c_isspace (rev (dropWhile c_isspace s)))"

definition int_text :: "string \<Rightarrow> string" where
  \<comment> \<open>what \<open>int\<close> hands to the number parser: an ASCII string as it is; in any other
      string each code point above 127 becomes a space when it is whitespace and an
      invalid character otherwise (below code point 256 there is no decimal digit
      above 127)\<close>
  "int_text s =
     (if is_ascii s then s
      else map (\<lambda>c. if (of_char c :: nat) < 128 then c
                     else if is_space c then CHR '' '' else CHR ''?'') s)"

definition py_int :: "string \<Rightarrow> int option" where
  \<comment> \<open>\<open>int(s)\<close> for a \<open>str\<close> in base 10, on the interpreters the package declares
      (Python 3.3 to 3.5): surrounding whitespace, one optional sign, then decimal digits;
      \<open>None\<close> stands for the \<open>ValueError\<close>. Later interpreters also accept single
      underscores between digits and refuse more than 4300 digits.\<close>
  "py_int s =
     (let t = c_strip (int_text s);
          neg = (t \<noteq> [] \<and> hd t = CHR ''-'');
          ds = (if t \<noteq> [] \<and> (hd t = CHR ''-'' \<or> hd t = CHR ''+'') then tl t else t)
      in if ds \<noteq> [] \<and> list_all is_digit ds
         then Some (if neg then - dec_value ds else dec_value ds)
         else None)"

fun after_prefix :: "string \<Rightarrow> string \<Rightarrow> string option" where
  \<comment> \<open>what is left of the subject once a literal piece of a pattern has matched\<close>
  "after_prefix [] s = Some s"
| "after_prefix (p # ps) [] = None"
| "after_prefix (p # ps) (c # cs) = (if p = c then after_prefix ps cs else None)"

definition at_end :: "string \<Rightarrow> bool" where
  \<comment> \<open>\<open>$\<close> without MULTILINE: the end of the subject, or just before a final newline\<close>
  "at_end r = (r = [] \<or> r = [newline])"

definition not_newline :: "char \<Rightarrow> bool" where
  \<comment> \<open>what \<open>.\<close> matches without DOTALL\<close>
  "not_newline c = (c \<noteq> newline)"

section \<open>The patterns of the program\<close>

text \<open>
  Each compiled pattern is used through \<open>match\<close> only, and only its groups are read, so
  a pattern is modelled as a function from the subject to the list of captured groups
  (group 1 first), \<open>None\<close> when it does not match.
\<close>

definition tail_ok :: "string \<Rightarrow> bool" where
  \<comment> \<open>\<open>(:.*)?\s*$\<close> matches the whole of what follows the closing parenthesis\<close>
  "tail_ok r =
     (list_all is_space r \<or>
      (r \<noteq> [] \<and> hd r = CHR '':'' \<and> list_all is_space (dropWhile not_newline (tl r))))"

definition closes :: "string \<Rightarrow> bool" where
  \<comment> \<open>\<open> \)(:.*)?\s*$\<close> matches here\<close>
  "closes r = (case after_prefix '' )'' r of Some t \<Rightarrow> tail_ok t | None \<Rightarrow> False)"

fun lazy_payload :: "string \<Rightarrow> string \<Rightarrow> string option" where
  \<comment> \<open>the lazy group \<open>(.*?)\<close>: the shortest run of non-newline characters after which
      the rest of the pattern matches; the first argument holds the run so far, reversed\<close>
  "lazy_payload acc [] = (if closes [] then Some (rev acc) else None)"
| "lazy_payload acc (c # cs) =
     (if closes (c # cs) then Some (rev acc)
      else if c = newline then None
      else lazy_payload (c # acc) cs)"

definition status_change_line :: "string \<Rightarrow> string list option" where
  \<comment> \<open>\<open>^status change: \( (.*?) \)(:.*)?\s*$\<close>; only group 1 is ever read\<close>
  "status_change_line line =
     (case after_prefix ''status change: ( '' line of
        None \<Rightarrow> None
      | Some r \<Rightarrow> (case lazy_payload [] r of None \<Rightarrow> None | Some g \<Rightarrow> Some [g]))"

definition re_volume :: "string \<Rightarrow> string list option" where
  \<comment> \<open>\<open>^audio volume: (-?[0-9]+)$\<close>\<close>
  "re_volume p =
     (case after_prefix ''audio volume: '' p of
        None \<Rightarrow> None
      | Some r \<Rightarrow>
          (let sg = (if r \<noteq> [] \<and> hd r = CHR ''-'' then ''-'' else []);
               r' = drop (length sg) r;
               ds = takeWhile is_digit r'
           in if ds \<noteq> [] \<and> at_end (dropWhile is_digit r') then Some [sg @ ds] else None))"

definition re_literal :: "string \<Rightarrow> string \<Rightarrow> string list option" where
  \<comment> \<open>\<open>^<text>$\<close> for a pattern with no group and no metacharacter\<close>
  "re_literal lit p =
     (case after_prefix lit p of
        None \<Rightarrow> None
      | Some r \<Rightarrow> if at_end r then Some [] else None)"

definition re_new_input :: "string \<Rightarrow> string list option" where
  \<comment> \<open>\<open>^new input: file:///(.*?)$\<close>\<close>
  "re_new_input p =
     (case after_prefix ''new input: file:///'' p of
        None \<Rightarrow> None
      | Some r \<Rightarrow>
          if at_end (dropWhile not_newline r) then Some [takeWhile not_newline r] else None)"

definition query_return_line_re :: "string \<Rightarrow> string list option" where
  \<comment> \<open>\<open>^([a-zA-Z_-]+): returned ([0-9]+).*$\<close>\<close>
  "query_return_line_re line =
     (let nm = takeWhile is_name_char line in
      if nm = [] then None
      else (case after_prefix '': returned '' (dropWhile is_name_char line) of
              None \<Rightarrow> None
            | Some r \<Rightarrow>
                if takeWhile is_digit r \<noteq> [] \<and> at_end (dropWhile not_newline r)
                then Some [nm, takeWhile is_digit r] else None))"

definition re_drive :: "string \<Rightarrow> bool" where
  \<comment> \<open>\<open>re.match(r'[A-Z]:/', src)\<close>\<close>
  "re_drive src =
     (case src of c # d # e # _ \<Rightarrow> is_upper c \<and> d = CHR '':'' \<and> e = CHR ''/'' | _ \<Rightarrow> False)"

section \<open>Player state\<close>

datatype PlayerState = PS_stop | PS_play | PS_pause | PS_end

datatype exn =
    IndexError
  | ValueError
  | QueryValueError string string
  | UnicodeDecodeError
  | UnicodeEncodeError

record Player =
  volume :: int
  video_title :: string
  playstate :: PlayerState
  curr_time :: int
  total_time :: int
  source :: string

text \<open>
  Each accessor of \<open>Player\<close> takes the state lock for one read or one write, so an
  accessor is an atomic step and is modelled by the field it reads or the update it
  makes. The timer thread calls \<open>inc_curr_time_if_playing\<close> once a second between the
  steps of the read loop; the handlers below are described by their own effect.
\<close>

definition inc_curr_time_if_playing :: "Player \<Rightarrow> Player" where
  "inc_curr_time_if_playing p =
     (if playstate p = PS_play then p\<lparr>curr_time := curr_time p + 1\<rparr> else p)"

definition Player_init :: Player where
  "Player_init =
     \<lparr>volume = 0, video_title = [], playstate = PS_stop, curr_time = 0, total_time = 0,
      source = []\<rparr>"

datatype callback = Resp_is_playing | Resp_title | Resp_get_time | Resp_get_length

text \<open>
  What the program does that an observer can see, in order: each line printed, each line
  written to the connection, and each call of a queued callback.
\<close>

datatype event =
    Print_playstate_change PlayerState
  | Print_new_input string
  | Telnet_write string
  | Print_sent_query string
  | Print_qrl_removing string
  | Print_got_query_response string
  | Callback_invoked string callback string
  | Print_set_title string
  | Print_set_current_time string
  | Print_set_total_time string
  | Print_unmatched_status_change string
  | Print_unmatched_line string
  | Print_invalid_value string string
  | Print_connection_reset
  | Print_connection_closed

record session =
  player :: Player
  query_queue :: "(string \<times> callback) list"
  ready_to_query :: bool
  trace :: "event list"

definition emit :: "event \<Rightarrow> session \<Rightarrow> session" where
  "emit e s = s\<lparr>trace := trace s @ [e]\<rparr>"

definition set_playstate :: "PlayerState \<Rightarrow> session \<Rightarrow> session" where
  "set_playstate nv s =
     emit (Print_playstate_change nv) (s\<lparr>player := (player s)\<lparr>playstate := nv\<rparr>\<rparr>)"

section \<open>Status changes\<close>

text \<open>
  A handler receives the match object, here the list of its groups, and may raise:
  the result pairs the exception that escapes, if any, with the state it leaves.
\<close>

type_synonym handler = "string list \<Rightarrow> session \<Rightarrow> exn option \<times> session"

definition sc_volume :: handler where
  "sc_volume mc s =
     (case mc of
        [] \<Rightarrow> (Some IndexError, s)
      | g # _ \<Rightarrow>
          (case py_int g of
             None \<Rightarrow> (Some ValueError, s)
           | Some v \<Rightarrow> (None, s\<lparr>player := (player s)\<lparr>volume := v\<rparr>\<rparr>)))"

definition sc_playing :: handler where
  "sc_playing mc s = (None, set_playstate PS_play s)"

definition sc_paused :: handler where
  "sc_paused mc s = (None, set_playstate PS_pause s)"

definition sc_stopped :: handler where
  "sc_stopped mc s = (None, set_playstate PS_end s)"

definition backslashes :: "string \<Rightarrow> string" where
  \<comment> \<open>\<open>src.replace('/', '\\')\<close>\<close>
  "backslashes src = map (\<lambda>c. if c = CHR ''/'' then CHR 0x5C else c) src"

definition sc_new_input :: handler where
  "sc_new_input mc s =
     (case mc of
        [] \<Rightarrow> (Some IndexError, s)
      | g # _ \<Rightarrow>
          (let src = (if re_drive g then backslashes g else g)
           in (None, emit (Print_new_input src) (s\<lparr>player := (player s)\<lparr>source := src\<rparr>\<rparr>))))"

definition status_changes :: "(string \<times> (string \<Rightarrow> string list option) \<times> handler) list" where
  "status_changes =
     [(''volume'', re_volume, sc_volume),
      (''stop'', re_literal ''stop state: 0'', sc_stopped),
      (''play'', re_literal ''play state: 2'', sc_playing),
      (''play'', re_literal ''play state: 3'', sc_playing),
      (''play'', re_literal ''play state: 4'', sc_playing),
      (''pause'', re_literal ''pause state: 3'', sc_paused),
      (''stop'', re_literal ''pause state: 4'', sc_stopped),
      (''input source'', re_new_input, sc_playing)]"

fun dispatch_status :: "(string \<times> (string \<Rightarrow> string list option) \<times> handler) list \<Rightarrow>
    string \<Rightarrow> session \<Rightarrow> exn option \<times> session" where
  \<comment> \<open>the \<open>for name, check, func in status_changes\<close> loop of the read loop: the first rule
      that matches runs and ends the loop; with none, the payload is reported\<close>
  "dispatch_status [] payload s = (None, emit (Print_unmatched_status_change payload) s)"
| "dispatch_status ((name, check, func) # rules) payload s =
     (case check payload of
        Some mc \<Rightarrow> func mc s
      | None \<Rightarrow> dispatch_status rules payload s)"

section \<open>The query queue\<close>

definition queue_query :: "string \<Rightarrow> callback \<Rightarrow> session \<Rightarrow> session" where
  "queue_query query_str cb s =
     (let s1 = (if length (query_queue s) = 0 then s\<lparr>ready_to_query := True\<rparr> else s)
      in s1\<lparr>query_queue := query_queue s1 @ [(query_str, cb)]\<rparr>)"

definition query_return_line :: "string \<Rightarrow> session \<Rightarrow> bool \<times> session" where
  "query_return_line line s =
     (case query_return_line_re line of
        None \<Rightarrow> (False, s)
      | Some m \<Rightarrow>
          (let query_name = hd m in
           (True,
            (case query_queue s of
               [] \<Rightarrow> s
             | d # rest \<Rightarrow>
                 if fst d = query_name
                 then (emit (Print_qrl_removing query_name) s)
                        \<lparr>query_queue := rest, ready_to_query := True\<rparr>
                 else s))))"

definition resp_is_playing :: "string \<Rightarrow> session \<Rightarrow> exn option \<times> session" where
  "resp_is_playing line s =
     (if line = ''0'' then (None, set_playstate PS_end s) else (None, set_playstate PS_play s))"

definition resp_title :: "string \<Rightarrow> session \<Rightarrow> exn option \<times> session" where
  "resp_title line s =
     (None, emit (Print_set_title line) (s\<lparr>player := (player s)\<lparr>video_title := line\<rparr>\<rparr>))"

definition resp_get_time :: "string \<Rightarrow> session \<Rightarrow> exn option \<times> session" where
  "resp_get_time line s =
     (case py_int line of
        None \<Rightarrow> (Some ValueError, s)
      | Some v \<Rightarrow>
          (None, emit (Print_set_current_time line) (s\<lparr>player := (player s)\<lparr>curr_time := v\<rparr>\<rparr>)))"

definition resp_get_length :: "string \<Rightarrow> session \<Rightarrow> exn option \<times> session" where
  "resp_get_length line s =
     (case py_int line of
        None \<Rightarrow> (Some ValueError, s)
      | Some v \<Rightarrow>
          (None, emit (Print_set_total_time line) (s\<lparr>player := (player s)\<lparr>total_time := v\<rparr>\<rparr>)))"

fun call :: "callback \<Rightarrow> string \<Rightarrow> session \<Rightarrow> exn option \<times> session" where
  "call Resp_is_playing = resp_is_playing"
| "call Resp_title = resp_title"
| "call Resp_get_time = resp_get_time"
| "call Resp_get_length = resp_get_length"

definition query_response :: "string \<Rightarrow> session \<Rightarrow> exn option \<times> session" where
  "query_response line s =
     (let s1 = emit (Print_got_query_response line) s in
      case query_queue s1 of
        [] \<Rightarrow> (Some IndexError, s1)
      | d # rest \<Rightarrow>
          call (snd d) line
            (emit (Callback_invoked (fst d) (snd d) line)
               (s1\<lparr>query_queue := rest, ready_to_query := True\<rparr>)))"

definition querier_tick :: "session \<Rightarrow> exn option \<times> session" where
  \<comment> \<open>one pass of the loop of \<open>QuerierThread.run\<close>, between \<open>lock\<close> and \<open>unlock\<close>;
      \<open>send\<close> encodes the query as ASCII before it writes\<close>
  "querier_tick s =
     (if ready_to_query s \<and> length (query_queue s) > 0
      then (let s1 = s\<lparr>ready_to_query := False\<rparr>;
                d = fst (hd (query_queue s1))
            in if is_ascii d
               then (None, emit (Print_sent_query d) (emit (Telnet_write (d @ [newline])) s1))
               else (Some UnicodeEncodeError, s1))
      else (None, s))"

section \<open>The read loop\<close>

definition session_created :: session where
  \<comment> \<open>a fresh \<open>Player\<close> and a fresh \<open>QuerierThread\<close>, nothing printed by the handlers yet\<close>
  "session_created =
     \<lparr>player = Player_init, query_queue = [], ready_to_query = False, trace = []\<rparr>"

definition session_init :: session where
  \<comment> \<open>the state when the read loop is entered: the four queries queued in the order of
      the source, each with the callback the source passes\<close>
  "session_init =
     queue_query ''get_length'' Resp_title
       (queue_query ''get_time'' Resp_title
          (queue_query ''title'' Resp_title
             (queue_query ''is_playing'' Resp_is_playing session_created)))"

definition handle_line :: "string \<Rightarrow> session \<Rightarrow> exn option \<times> session" where
  \<comment> \<open>the body of the read loop from \<open>if line != ''\<close> on, for the stripped line\<close>
  "handle_line line s =
     (if line = [] then (None, s)
      else (case status_change_line line of
              Some m \<Rightarrow> dispatch_status status_changes (hd m) s
            | None \<Rightarrow>
                (case query_return_line line s of
                   (True, s') \<Rightarrow> (None, s')
                 | (False, s') \<Rightarrow>
                     (case query_response line s' of
                        (Some IndexError, s'') \<Rightarrow> (None, emit (Print_unmatched_line line) s'')
                      | (Some (QueryValueError q v), s'') \<Rightarrow>
                          (None, emit (Print_invalid_value q v) s'')
                      | r \<Rightarrow> r))))"

datatype read_result = Data string | ConnectionResetError | EOFError

datatype outcome =
    Continue string session
  | Exit nat session
  | Uncaught exn session

definition loop_iteration :: "read_result \<Rightarrow> string \<Rightarrow> session \<Rightarrow> outcome" where
  \<comment> \<open>one pass of \<open>while True\<close>: the result of \<open>t.read_until(b'\n', 60)\<close>, the buffer
      and the state before; \<open>Continue\<close> carries the buffer and the state of the next pass\<close>
  "loop_iteration rr buf s =
     (case rr of
        ConnectionResetError \<Rightarrow> Exit 0 (emit Print_connection_reset s)
      | EOFError \<Rightarrow> Exit 0 (emit Print_connection_closed s)
      | Data data \<Rightarrow>
          (let buf' = buf @ data in
           if buf' = [] then Uncaught IndexError s
           else if last buf' \<noteq> newline then Continue buf' s
           else if \<not> is_ascii buf' then Uncaught UnicodeDecodeError s
           else (case handle_line (py_strip buf') s of
                   (None, s') \<Rightarrow> Continue [] s'
                 | (Some e, s') \<Rightarrow> Uncaught e s')))"

fun run_lines :: "string list \<Rightarrow> session \<Rightarrow> exn option \<times> session" where
  \<comment> \<open>the read loop over complete lines: it ends with the first exception that escapes\<close>
  "run_lines [] s = (None, s)"
| "run_lines (l # ls) s =
     (case handle_line l s of
        (None, s') \<Rightarrow> run_lines ls s'
      | (Some e, s') \<Rightarrow> (Some e, s'))"

section \<open>Sequences of queue operations\<close>

text \<open>
  The four operations on the queue each run between \<open>lock\<close> and \<open>unlock\<close> of the
  one \<open>data_lock\<close>, so the threads interleave them whole: a behaviour of the queue is
  a sequence of operations. An exception other than the \<open>IndexError\<close> of an empty queue
  leaves the lock held (a response callback that raises ends the read loop as well, an
  encoding error ends the querier thread), and no later operation runs.
\<close>

datatype op = Enqueue string callback | Tick | Ack_line string | Response_line string

fun step :: "op \<Rightarrow> session \<Rightarrow> exn option \<times> session" where
  "step (Enqueue query_str cb) s = (None, queue_query query_str cb s)"
| "step Tick s = querier_tick s"
| "step (Ack_line line) s = (None, snd (query_return_line line s))"
| "step (Response_line line) s = query_response line s"




text \<open>What an operation does to the queue, read off the states before and after it.\<close>

definition removes :: "op \<Rightarrow> session \<Rightarrow> bool" where
  \<comment> \<open>the head leaves the queue\<close>
  "removes x s = (length (query_queue (snd (step x s))) < length (query_queue s))"




fun is_write :: "event \<Rightarrow> bool" where
  "is_write (Telnet_write d) = True"
| "is_write e = False"






fun calls :: "event list \<Rightarrow> (string \<times> callback \<times> string) list" where
  \<comment> \<open>the callback invocations of a trace, in order\<close>
  "calls [] = []"
| "calls (Callback_invoked n cb line # es) = (n, cb, line) # calls es"
| "calls (e # es) = calls es"

fun is_invalid_value :: "event \<Rightarrow> bool" where
  "is_invalid_value (Print_invalid_value q v) = True"
| "is_invalid_value e = False"

definition handed :: "string \<times> callback \<Rightarrow> string \<Rightarrow> (string \<times> callback) list \<Rightarrow> session \<Rightarrow>
    session" where
  \<comment> \<open>the state in which \<open>query_response\<close> calls the callback of the head \<open>d\<close>: the line
      printed, the head popped (the rest of the queue left), the flag set\<close>
  "handed d line rest s =
     emit (Callback_invoked (fst d) (snd d) line)
       ((emit (Print_got_query_response line) s)\<lparr>query_queue := rest, ready_to_query := True\<rparr>)"



section \<open>Facts about the text primitives and the patterns\<close>

lemma after_prefix_append: "after_prefix p (p @ r) = Some r"
  by (induction p) auto

lemma after_prefix_Some: "after_prefix p s = Some r \<Longrightarrow> s = p @ r"
  by (induction p s rule: after_prefix.induct) (auto split: if_splits)

lemma digit_not_space: "is_digit c \<Longrightarrow> \<not> is_space c"
  by (auto simp: is_digit_def is_space_def)

lemma digit_not_sign: "is_digit c \<Longrightarrow> c \<noteq> CHR ''-'' \<and> c \<noteq> CHR ''+''"
  by (auto simp: is_digit_def)

lemma digit_plain: "is_digit c \<Longrightarrow> c \<noteq> CHR '')'' \<and> c \<noteq> newline"
  by (auto simp: is_digit_def newline_def)

lemma digit_not_c_space: "is_digit c \<Longrightarrow> \<not> c_isspace c"
  by (auto simp: is_digit_def c_isspace_def)

lemma digit_ascii: "is_digit c \<Longrightarrow> (of_char c :: nat) < 128"
  by (auto simp: is_digit_def)

lemma c_strip_id:
  assumes "s \<noteq> []" "\<not> c_isspace (hd s)" "\<not> c_isspace (last s)"
  shows "c_strip s = s"
proof -
  have 1: "dropWhile c_isspace s = s"
    using assms(2) by (simp add: dropWhile_eq_self_iff)
  have 2: "dropWhile c_isspace (rev s) = rev s"
    using assms(1,3) by (simp add: dropWhile_eq_self_iff hd_rev)
  show ?thesis by (simp add: c_strip_def 1 2)
qed

lemma digits_hd_last:
  assumes "ds \<noteq> []" "list_all is_digit ds"
  shows "is_digit (hd ds)" "is_digit (last ds)"
  using assms by (simp_all add: list_all_iff)

lemma int_text_digits:
  assumes "list_all is_digit ds"
  shows "int_text ds = ds" "int_text (CHR ''-'' # ds) = CHR ''-'' # ds"
proof -
  have "is_ascii ds" using assms digit_ascii by (auto simp: is_ascii_def list_all_iff)
  then show "int_text ds = ds" "int_text (CHR ''-'' # ds) = CHR ''-'' # ds"
    by (simp_all add: int_text_def is_ascii_def)
qed

lemma py_int_digits:
  assumes "ds \<noteq> []" "list_all is_digit ds"
  shows "py_int ds = Some (dec_value ds)" "py_int (CHR ''-'' # ds) = Some (- dec_value ds)"
proof -
  note hl = digits_hd_last[OF assms]
  note it = int_text_digits[OF assms(2)]
  have s1: "c_strip ds = ds"
    using assms(1) hl by (intro c_strip_id) (simp_all add: digit_not_c_space)
  have s2: "c_strip (CHR ''-'' # ds) = CHR ''-'' # ds"
  proof (rule c_strip_id)
    show "\<not> c_isspace (hd (CHR ''-'' # ds))" by (simp add: c_isspace_def)
    show "\<not> c_isspace (last (CHR ''-'' # ds))"
      using assms(1) hl(2) by (simp add: digit_not_c_space)
  qed simp
  from digit_not_sign[OF hl(1)] assms
  show "py_int ds = Some (dec_value ds)"
    unfolding py_int_def it s1 Let_def by simp
  from assms show "py_int (CHR ''-'' # ds) = Some (- dec_value ds)"
    unfolding py_int_def it s2 Let_def by simp
qed

lemma takeWhile_all: "list_all P xs \<Longrightarrow> takeWhile P xs = xs \<and> dropWhile P xs = []"
  by (induction xs) auto

lemma re_volume_digits:
  assumes "ds \<noteq> []" "list_all is_digit ds"
  shows "re_volume (''audio volume: '' @ ds) = Some [ds]"
    "re_volume (''audio volume: '' @ CHR ''-'' # ds) = Some [CHR ''-'' # ds]"
proof -
  note hl = digits_hd_last[OF assms]
  note tw = takeWhile_all[OF assms(2)]
  have ap: "\<And>r. after_prefix ''audio volume: '' (''audio volume: '' @ r) = Some r"
    by (rule after_prefix_append)
  from digit_not_sign[OF hl(1)] assms
  show "re_volume (''audio volume: '' @ ds) = Some [ds]"
    unfolding re_volume_def ap by (simp add: at_end_def tw list_all_iff)
  from assms
  show "re_volume (''audio volume: '' @ CHR ''-'' # ds) = Some [CHR ''-'' # ds]"
    unfolding re_volume_def ap by (simp add: at_end_def tw list_all_iff)
qed

lemma lazy_payload_plain:
  "CHR '')'' \<notin> set p \<Longrightarrow> newline \<notin> set p \<Longrightarrow> tail_ok t \<Longrightarrow>
   lazy_payload acc (p @ '' )'' @ t) = Some (rev acc @ p)"
proof (induction p arbitrary: acc)
  case Nil
  then show ?case by (simp add: closes_def)
next
  case (Cons c p)
  have "\<not> closes (c # p @ '' )'' @ t)"
    using Cons.prems(1) by (cases p) (auto simp: closes_def)
  with Cons show ?case by auto
qed

lemma status_change_line_plain:
  "CHR '')'' \<notin> set p \<Longrightarrow> newline \<notin> set p \<Longrightarrow>
   status_change_line (''status change: ( '' @ p @ '' )'') = Some [p]"
  using lazy_payload_plain[of p "[]" "[]"]
    after_prefix_append[of "''status change: ( ''" "p @ '' )''"]
  unfolding status_change_line_def by (simp add: tail_ok_def)

lemma ack_not_status:
  assumes "query_return_line_re line = Some m"
  shows "status_change_line line = None" "line \<noteq> []"
proof -
  show "line \<noteq> []" using assms by (auto simp: query_return_line_re_def)
  show "status_change_line line = None"
  proof (cases "after_prefix ''status change: ( '' line")
    case None
    then show ?thesis by (simp add: status_change_line_def)
  next
    case (Some r)
    from after_prefix_Some[OF Some] have "query_return_line_re line = None"
      by (simp add: query_return_line_re_def is_name_char_def)
    with assms show ?thesis by simp
  qed
qed

section \<open>Facts about the handlers and the queue\<close>

lemma dispatch_new_input:
  "dispatch_status status_changes ''new input: file:///C:/Movies/a.mp4'' s =
     (None, set_playstate PS_play s)"
  by (simp add: status_changes_def re_volume_def re_literal_def re_new_input_def at_end_def
      not_newline_def newline_def sc_playing_def)

lemma sc_new_input_drive_path:
  "fst (sc_new_input [''C:/Movies/a.mp4''] s) = None \<and>
   source (player (snd (sc_new_input [''C:/Movies/a.mp4''] s))) =
     ''C:'' @ [CHR 0x5C] @ ''Movies'' @ [CHR 0x5C] @ ''a.mp4''"
  by (simp add: sc_new_input_def re_drive_def is_upper_def backslashes_def emit_def Let_def)

lemma dispatch_stop:
  "dispatch_status status_changes ''stop state: 0'' s = (None, set_playstate PS_end s)"
  "dispatch_status status_changes ''pause state: 4'' s = (None, set_playstate PS_end s)"
  by (simp_all add: status_changes_def re_volume_def re_literal_def at_end_def sc_stopped_def)

lemma partial_read_retries:
  "buf @ data \<noteq> [] \<Longrightarrow> last (buf @ data) \<noteq> newline \<Longrightarrow>
   loop_iteration (Data data) buf s = Continue (buf @ data) s"
  by (simp add: loop_iteration_def Let_def)

lemma handle_status_line:
  assumes "CHR '')'' \<notin> set p" "newline \<notin> set p"
  shows "handle_line (''status change: ( '' @ p @ '' )'') s = dispatch_status status_changes p s"
proof -
  have scl: "status_change_line (''status change: ( '' @ p @ '' )'') = Some [p]"
    by (rule status_change_line_plain[OF assms])
  have ne: "''status change: ( '' @ p @ '' )'' \<noteq> []" by simp
  show ?thesis unfolding handle_line_def scl using ne by simp
qed

lemma volume_payload_plain:
  assumes "sg = [] \<or> sg = ''-''" and "list_all is_digit ds"
  shows "CHR '')'' \<notin> set (''audio volume: '' @ sg @ ds)"
    "newline \<notin> set (''audio volume: '' @ sg @ ds)"
proof -
  have pl: "\<And>c. c \<in> set ds \<Longrightarrow> c \<noteq> CHR '')'' \<and> c \<noteq> newline"
    using assms(2) digit_plain by (simp add: list_all_iff)
  have a: "CHR '')'' \<notin> set ''audio volume: ''" "newline \<notin> set ''audio volume: ''"
    by (simp_all add: newline_def)
  have b: "CHR '')'' \<notin> set sg" "newline \<notin> set sg"
    using assms(1) by (auto simp: newline_def)
  have c: "CHR '')'' \<notin> set ds" "newline \<notin> set ds" using pl by blast+
  show "CHR '')'' \<notin> set (''audio volume: '' @ sg @ ds)"
    unfolding set_append using a(1) b(1) c(1) by blast
  show "newline \<notin> set (''audio volume: '' @ sg @ ds)"
    unfolding set_append using a(2) b(2) c(2) by blast
qed

lemma calls_append: "calls (xs @ ys) = calls xs @ calls ys"
  by (induction xs rule: calls.induct) auto

lemma call_frame:
  assumes "call cb line s = (r, s')"
  shows "query_queue s' = query_queue s" "ready_to_query s' = ready_to_query s"
    "calls (trace s') = calls (trace s)"
    "filter is_write (trace s') = filter is_write (trace s)"
  using assms
  by (cases cb; auto simp: resp_is_playing_def resp_title_def resp_get_time_def
      resp_get_length_def set_playstate_def emit_def calls_append
      split: if_splits option.splits)+

lemma query_response_empty:
  "query_queue s = [] \<Longrightarrow>
   query_response line s = (Some IndexError, emit (Print_got_query_response line) s)"
  by (simp add: query_response_def emit_def)

lemma query_response_handed:
  "query_queue s = d # rest \<Longrightarrow> query_response line s = call (snd d) line (handed d line rest s)"
  by (simp add: query_response_def handed_def emit_def)

lemma query_response_cons:
  assumes "query_queue s = d # rest" "query_response line s = (r, s')"
  shows "query_queue s' = rest" "ready_to_query s'"
    "calls (trace s') = calls (trace s) @ [(fst d, snd d, line)]"
    "filter is_write (trace s') = filter is_write (trace s)"
proof -
  let ?s1 = "emit (Callback_invoked (fst d) (snd d) line)
               ((emit (Print_got_query_response line) s)
                  \<lparr>query_queue := rest, ready_to_query := True\<rparr>)"
  from assms have c: "call (snd d) line ?s1 = (r, s')"
    by (simp add: query_response_def emit_def)
  from call_frame[OF c]
  show "query_queue s' = rest" "ready_to_query s'"
    "calls (trace s') = calls (trace s) @ [(fst d, snd d, line)]"
    "filter is_write (trace s') = filter is_write (trace s)"
    by (simp_all add: emit_def calls_append)
qed


lemma removes_ack:
  "removes (Ack_line l) s =
     (\<exists>m d rest. query_return_line_re l = Some m \<and> query_queue s = d # rest \<and> fst d = hd m)"
  by (auto simp: removes_def query_return_line_def emit_def Let_def
      split: option.splits list.splits)








section \<open>The claims\<close>

text \<open>
  C1. A line \<open>status change: ( new input: file:///<path> )\<close> is said to set the source
  to the captured path, a drive-letter path rewritten with backslashes, and to set the
  play state to playing. The rule of the table for this payload runs \<open>sc_playing\<close>,
  not \<open>sc_new_input\<close>: the play state becomes \<open>play\<close> and the source stays what it was,
  empty after startup, although \<open>sc_new_input\<close> would have stored the rewritten path
  (lemma \<open>sc_new_input_drive_path\<close>).
\<close>

theorem new_input_leaves_source:
  "handle_line ''status change: ( new input: file:///C:/Movies/a.mp4 )'' s =
     (None, set_playstate PS_play s)
   \<and> playstate (player (set_playstate PS_play s)) = PS_play
   \<and> source (player (set_playstate PS_play s)) = source (player s)
   \<and> source (player (set_playstate PS_play session_init)) = []"
proof -
  have "handle_line (''status change: ( '' @ ''new input: file:///C:/Movies/a.mp4'' @ '' )'') s =
      dispatch_status status_changes ''new input: file:///C:/Movies/a.mp4'' s"
    by (rule handle_status_line) (simp_all add: newline_def)
  then have 1: "handle_line ''status change: ( new input: file:///C:/Movies/a.mp4 )'' s =
      (None, set_playstate PS_play s)"
    by (simp add: dispatch_new_input)
  have 2: "playstate (player (set_playstate PS_play s)) = PS_play"
    and 3: "source (player (set_playstate PS_play s)) = source (player s)"
    by (simp_all add: set_playstate_def emit_def)
  have 4: "source (player (set_playstate PS_play session_init)) = []"
    by (simp add: set_playstate_def emit_def session_init_def session_created_def
        queue_query_def Player_init_def)
  from 1 2 3 4 show ?thesis by blast
qed

text \<open>
  C2. The responses to the queries queued at startup are said to fill the matching
  attribute: \<open>get_time\<close> the current time, \<open>get_length\<close> the total time, \<open>title\<close> the
  title. The source queues \<open>get_time\<close> and \<open>get_length\<close> with the callback
  \<open>resp_title\<close>: after the four responses both times are still 0 and the title is the
  last response.
\<close>

theorem startup_time_queries_set_title:
  "(let r = run_lines [''1'', ''Movie.mp4'', ''42'', ''5400''] session_init;
        p = player (snd r)
    in fst r = None \<and> curr_time p = 0 \<and> total_time p = 0 \<and> video_title p = ''5400''
       \<and> Callback_invoked ''get_time'' Resp_title ''42'' \<in> set (trace (snd r))
       \<and> Callback_invoked ''get_length'' Resp_title ''5400'' \<in> set (trace (snd r)))"
  by code_simp

text \<open>
  C3, as amended. The payloads \<open>stop state: 0\<close> and \<open>pause state: 4\<close> both run
  \<open>sc_stopped\<close>, which sets the play state to \<open>PlayerState.end\<close> (Ended), not to
  \<open>PlayerState.stop\<close> (Stopped); the same holds for the whole line around the payload.
\<close>

theorem stop_reports_set_end:
  "dispatch_status status_changes ''stop state: 0'' s = (None, set_playstate PS_end s)
   \<and> dispatch_status status_changes ''pause state: 4'' s = (None, set_playstate PS_end s)
   \<and> handle_line ''status change: ( stop state: 0 )'' s = (None, set_playstate PS_end s)
   \<and> handle_line ''status change: ( pause state: 4 )'' s = (None, set_playstate PS_end s)
   \<and> playstate (player (set_playstate PS_end s)) = PS_end"
proof -
  have "handle_line (''status change: ( '' @ ''stop state: 0'' @ '' )'') s =
      dispatch_status status_changes ''stop state: 0'' s"
    by (rule handle_status_line) (simp_all add: newline_def)
  then have 1: "handle_line ''status change: ( stop state: 0 )'' s = (None, set_playstate PS_end s)"
    by (simp add: dispatch_stop)
  have "handle_line (''status change: ( '' @ ''pause state: 4'' @ '' )'') s =
      dispatch_status status_changes ''pause state: 4'' s"
    by (rule handle_status_line) (simp_all add: newline_def)
  then have 2: "handle_line ''status change: ( pause state: 4 )'' s = (None, set_playstate PS_end s)"
    by (simp add: dispatch_stop)
  have 3: "playstate (player (set_playstate PS_end s)) = PS_end"
    by (simp add: set_playstate_def emit_def)
  from 1 2 3 dispatch_stop[of s] show ?thesis by blast
qed

text \<open>
  C3 as stated fails: after either payload the play state is not \<open>PlayerState.stop\<close>.
\<close>

theorem stop_reports_not_stopped:
  "playstate (player (snd (dispatch_status status_changes ''stop state: 0'' session_init)))
     \<noteq> PS_stop
   \<and> playstate (player (snd (dispatch_status status_changes ''pause state: 4'' session_init)))
     \<noteq> PS_stop"
  by (simp add: dispatch_stop set_playstate_def emit_def)

text \<open>
  C4. A response that is not a number where an integer is expected is said to be
  signalled with the command name and the value, with the read loop going on. As the
  queries are queued at startup, the response to \<open>get_time\<close> goes to \<open>resp_title\<close>: the
  text \<open>abc\<close> becomes the title and nothing is signalled. With \<open>resp_get_time\<close> queued
  for it, \<open>int\<close> raises \<open>ValueError\<close>, which the read loop does not catch: no
  \<open>QueryValueError\<close> is raised anywhere, nothing is reported, and the loop ends.
\<close>

theorem non_numeric_response_unsignalled:
  "(let r = run_lines [''1'', ''Movie.mp4'', ''abc''] session_init
    in fst r = None \<and> video_title (player (snd r)) = ''abc'' \<and> curr_time (player (snd r)) = 0
       \<and> filter is_invalid_value (trace (snd r)) = [])
   \<and> (let s = queue_query ''get_time'' Resp_get_time session_created
      in fst (handle_line ''abc'' s) = Some ValueError
         \<and> filter is_invalid_value (trace (snd (handle_line ''abc'' s))) = []
         \<and> loop_iteration (Data (''abc'' @ [newline])) [] s =
             Uncaught ValueError (snd (handle_line ''abc'' s)))"
  by code_simp

text \<open>
  C5. A read that returns with no newline at the end of the buffer is said to be
  retried, also when it timed out with nothing read into an empty buffer. With a
  non-empty buffer the loop does continue (lemma \<open>partial_read_retries\<close>); with the
  empty one \<open>buf[-1]\<close> raises \<open>IndexError\<close>, which the \<open>try\<close> around the read does not
  catch.
\<close>

theorem empty_read_raises_IndexError:
  "loop_iteration (Data []) [] s = Uncaught IndexError s"
  by (simp add: loop_iteration_def)




text \<open>
  C7. Three queries queued on an empty queue, then three lines each handed to
  \<open>query_response\<close> (the first two calls return, so that the next one takes place).
  The first line is passed to the callback of the first query, which runs in the state
  with that query popped; the second line to the callback of the second query, in the
  state the first callback left; the third line to the callback of the third query, in
  the state the second left; and the state and the result of the third call are those
  of the third callback. So each callback runs once, on its own line, in the order of
  the enqueues, and the queue is empty again. What a callback does to the player and
  prints is given by \<open>call\<close>, that is by \<open>resp_is_playing\<close>, \<open>resp_title\<close>,
  \<open>resp_get_time\<close> and \<open>resp_get_length\<close>.
\<close>

theorem responses_fifo:
  assumes "query_queue s0 = []"
    and "query_response l1
           (queue_query n3 cb3 (queue_query n2 cb2 (queue_query n1 cb1 s0))) = (None, s4)"
    and "query_response l2 s4 = (None, s5)"
    and "query_response l3 s5 = (r, s6)"
  shows "call cb1 l1
           (handed (n1, cb1) l1 [(n2, cb2), (n3, cb3)]
              (queue_query n3 cb3 (queue_query n2 cb2 (queue_query n1 cb1 s0)))) = (None, s4)
    \<and> call cb2 l2 (handed (n2, cb2) l2 [(n3, cb3)] s4) = (None, s5)
    \<and> call cb3 l3 (handed (n3, cb3) l3 [] s5) = (r, s6)
    \<and> calls (trace s6) = calls (trace s0) @ [(n1, cb1, l1), (n2, cb2, l2), (n3, cb3, l3)]
    \<and> query_queue s6 = []"
proof -
  let ?s3 = "queue_query n3 cb3 (queue_query n2 cb2 (queue_query n1 cb1 s0))"
  have q3: "query_queue ?s3 = [(n1, cb1), (n2, cb2), (n3, cb3)]" and t3: "trace ?s3 = trace s0"
    using assms(1) by (simp_all add: queue_query_def)
  note a = query_response_cons[OF q3 assms(2)]
  note b = query_response_cons[OF a(1) assms(3)]
  note c = query_response_cons[OF b(1) assms(4)]
  have 1: "call cb1 l1 (handed (n1, cb1) l1 [(n2, cb2), (n3, cb3)] ?s3) = (None, s4)"
    using query_response_handed[OF q3, of l1] assms(2) by simp
  have 2: "call cb2 l2 (handed (n2, cb2) l2 [(n3, cb3)] s4) = (None, s5)"
    using query_response_handed[OF a(1), of l2] assms(3) by simp
  have 3: "call cb3 l3 (handed (n3, cb3) l3 [] s5) = (r, s6)"
    using query_response_handed[OF b(1), of l3] assms(4) by simp
  have 4: "calls (trace s6) = calls (trace s0) @ [(n1, cb1, l1), (n2, cb2, l2), (n3, cb3, l3)]"
    using a(3) b(3) c(3) t3 by simp
  from 1 2 3 4 c(1) show ?thesis by blast
qed

text \<open>
  At \<open>is_playing\<close>, \<open>title\<close> and \<open>get_time\<close> with the callbacks written for them and the
  lines \<open>1\<close>, \<open>Movie.mp4\<close> and \<open>42\<close>: the player ends playing, with that title and the
  current time 42, and the prints of the three callbacks appear in that order.
\<close>

theorem responses_fifo_witness:
  "snd (call Resp_get_time ''42''
          (handed (''get_time'', Resp_get_time) ''42'' []
             (snd (query_response ''Movie.mp4'' (snd (query_response ''1''
                (queue_query ''get_time'' Resp_get_time (queue_query ''title'' Resp_title
                   (queue_query ''is_playing'' Resp_is_playing session_created)))))))))
   = \<lparr>player = \<lparr>volume = 0, video_title = ''Movie.mp4'', playstate = PS_play, curr_time = 42,
                 total_time = 0, source = []\<rparr>,
      query_queue = [], ready_to_query = True,
      trace = [Print_got_query_response ''1'',
               Callback_invoked ''is_playing'' Resp_is_playing ''1'',
               Print_playstate_change PS_play,
               Print_got_query_response ''Movie.mp4'',
               Callback_invoked ''title'' Resp_title ''Movie.mp4'',
               Print_set_title ''Movie.mp4'',
               Print_got_query_response ''42'',
               Callback_invoked ''get_time'' Resp_get_time ''42'',
               Print_set_current_time ''42'']\<rparr>"
proof -
  let ?s3 = "queue_query ''get_time'' Resp_get_time (queue_query ''title'' Resp_title
         (queue_query ''is_playing'' Resp_is_playing session_created))"
  let ?s4 = "snd (query_response ''1'' ?s3)"
  let ?s5 = "snd (query_response ''Movie.mp4'' ?s4)"
  let ?s6 = "snd (query_response ''42'' ?s5)"
  have q: "query_queue session_created = []" by (simp add: session_created_def)
  have a: "fst (query_response ''1'' ?s3) = None" by code_simp
  have b: "fst (query_response ''Movie.mp4'' ?s4) = None" by code_simp
  have a': "query_response ''1'' ?s3 = (None, ?s4)" using a by (simp add: prod_eq_iff)
  have b': "query_response ''Movie.mp4'' ?s4 = (None, ?s5)" using b by (simp add: prod_eq_iff)
  have c': "query_response ''42'' ?s5 = (fst (query_response ''42'' ?s5), ?s6)"
    by simp
  have full: "?s6 =
     \<lparr>player = \<lparr>volume = 0, video_title = ''Movie.mp4'', playstate = PS_play, curr_time = 42,
                 total_time = 0, source = []\<rparr>,
      query_queue = [], ready_to_query = True,
      trace = [Print_got_query_response ''1'',
               Callback_invoked ''is_playing'' Resp_is_playing ''1'',
               Print_playstate_change PS_play,
               Print_got_query_response ''Movie.mp4'',
               Callback_invoked ''title'' Resp_title ''Movie.mp4'',
               Print_set_title ''Movie.mp4'',
               Print_got_query_response ''42'',
               Callback_invoked ''get_time'' Resp_get_time ''42'',
               Print_set_current_time ''42'']\<rparr>"
    by code_simp
  from responses_fifo[OF q a' b' c']
  have "call Resp_get_time ''42'' (handed (''get_time'', Resp_get_time) ''42'' [] ?s5) =
      (fst (query_response ''42'' ?s5), ?s6)"
    by blast
  then have "snd (call Resp_get_time ''42'' (handed (''get_time'', Resp_get_time) ''42'' [] ?s5))
      = ?s6"
    by simp
  with full show ?thesis by simp
qed

text \<open>
  C8. With the queue empty, \<open>query_response\<close> raises \<open>IndexError\<close> having printed the
  line only; for a line of the data-response path the read loop then reports the
  unmatched line and goes on to the next line. No callback is invoked, and the queue,
  the flag and the player are as before: only the two reports are added to the trace.
\<close>

theorem response_on_empty_queue:
  assumes "query_queue s = []"
  shows "query_response line s = (Some IndexError, emit (Print_got_query_response line) s)
    \<and> (line \<noteq> [] \<and> status_change_line line = None \<and> query_return_line_re line = None \<longrightarrow>
         handle_line line s =
           (None, s\<lparr>trace := trace s @
                     [Print_got_query_response line, Print_unmatched_line line]\<rparr>)
         \<and> run_lines (line # ls) s =
             run_lines ls (s\<lparr>trace := trace s @
                     [Print_got_query_response line, Print_unmatched_line line]\<rparr>))"
  using assms
  by (simp add: query_response_empty handle_line_def query_return_line_def emit_def)

theorem response_on_empty_queue_witness:
  "query_queue session_created = [] \<and>
   handle_line ''Movie.mp4'' session_created =
     (None, session_created\<lparr>trace :=
        [Print_got_query_response ''Movie.mp4'', Print_unmatched_line ''Movie.mp4'']\<rparr>)"
proof -
  have q: "query_queue session_created = []" by (simp add: session_created_def)
  have c: "''Movie.mp4'' \<noteq> [] \<and> status_change_line ''Movie.mp4'' = None \<and>
      query_return_line_re ''Movie.mp4'' = None"
    by code_simp
  have t: "trace session_created = []" by (simp add: session_created_def)
  from response_on_empty_queue[OF q, of "''Movie.mp4''" "[]"] c q t show ?thesis by simp
qed

text \<open>
  C9. For a payload \<open>audio volume: \<close> followed by an optional minus sign and one or
  more decimal digits, the status rules set the volume to that signed number and change
  nothing else: the title, the play state, both times, the source, the queue, the flag
  and the trace are as before. The same holds for the whole line around the payload.
\<close>

theorem volume_report_sets_volume:
  assumes "sg = [] \<or> sg = ''-''" and "ds \<noteq> []" and "list_all is_digit ds"
  shows "dispatch_status status_changes (''audio volume: '' @ sg @ ds) s =
           (None, s\<lparr>player := (player s)
              \<lparr>volume := (if sg = ''-'' then - dec_value ds else dec_value ds)\<rparr>\<rparr>)
    \<and> handle_line (''status change: ( '' @ (''audio volume: '' @ sg @ ds) @ '' )'') s =
        dispatch_status status_changes (''audio volume: '' @ sg @ ds) s"
proof
  show "dispatch_status status_changes (''audio volume: '' @ sg @ ds) s =
           (None, s\<lparr>player := (player s)
              \<lparr>volume := (if sg = ''-'' then - dec_value ds else dec_value ds)\<rparr>\<rparr>)"
  proof (cases "sg = []")
    case True
    then show ?thesis
      using re_volume_digits(1)[OF assms(2,3)] py_int_digits(1)[OF assms(2,3)]
      by (simp add: status_changes_def sc_volume_def)
  next
    case False
    with assms(1) have sg: "sg = ''-''" by simp
    show ?thesis
      using re_volume_digits(2)[OF assms(2,3)] py_int_digits(2)[OF assms(2,3)] sg
      by (simp add: status_changes_def sc_volume_def)
  qed
  show "handle_line (''status change: ( '' @ (''audio volume: '' @ sg @ ds) @ '' )'') s =
        dispatch_status status_changes (''audio volume: '' @ sg @ ds) s"
    by (rule handle_status_line[OF volume_payload_plain[OF assms(1,3)]])
qed

theorem volume_report_sets_volume_witness:
  "dispatch_status status_changes ''audio volume: -20'' session_init =
     (None, session_init\<lparr>player := (player session_init)\<lparr>volume := - 20\<rparr>\<rparr>)
   \<and> handle_line ''status change: ( audio volume: -20 )'' session_init =
     (None, session_init\<lparr>player := (player session_init)\<lparr>volume := - 20\<rparr>\<rparr>)"
proof -
  have h: "''-'' = [] \<or> ''-'' = ''-''" "''20'' \<noteq> []" "list_all is_digit ''20''"
    by (simp_all add: is_digit_def)
  have v: "dec_value ''20'' = 20" by (simp add: dec_value_def digit_val_def)
  from volume_report_sets_volume[OF h, of session_init] v show ?thesis by simp
qed

text \<open>
  C10. A line that matches the acknowledgment pattern while the queue is empty, or
  while the head of the queue has another name, is taken by \<open>query_return_line\<close>
  (it returns \<open>True\<close>, so the line never reaches \<open>query_response\<close>) and changes nothing:
  the queue, the flag, the player and the trace are as before, and no callback runs.
\<close>

theorem foreign_ack_is_swallowed:
  assumes "query_return_line_re line = Some m"
    and "query_queue s = [] \<or> fst (hd (query_queue s)) \<noteq> hd m"
  shows "query_return_line line s = (True, s) \<and> handle_line line s = (None, s)"
proof -
  have q: "query_return_line line s = (True, s)"
    using assms by (auto simp: query_return_line_def Let_def split: list.splits)
  with ack_not_status[OF assms(1)] show ?thesis by (simp add: handle_line_def)
qed

theorem foreign_ack_is_swallowed_witness:
  "query_return_line_re ''title: returned 0 (no error)'' = Some [''title'', ''0'']
   \<and> handle_line ''title: returned 0 (no error)'' session_init = (None, session_init)
   \<and> handle_line ''title: returned 0 (no error)'' session_created = (None, session_created)"
proof -
  have m: "query_return_line_re ''title: returned 0 (no error)'' = Some [''title'', ''0'']"
    by code_simp
  have h1: "query_queue session_init = [] \<or>
      fst (hd (query_queue session_init)) \<noteq> hd [''title'', ''0'']"
    by code_simp
  have h2: "query_queue session_created = [] \<or>
      fst (hd (query_queue session_created)) \<noteq> hd [''title'', ''0'']"
    by (simp add: session_created_def)
  from foreign_ack_is_swallowed[OF m h1] foreign_ack_is_swallowed[OF m h2] m
  show ?thesis by simp
qed

end
